theory Spec2Isabelle
  imports Main
begin

section \<open>The libffi build project of mx\_truffle.py\<close>

text \<open>
  The theory embeds \<^verbatim>\<open>LibffiBuilderProject\<close> and \<^verbatim>\<open>LibffiBuildTask\<close> of
  \<^verbatim>\<open>src/truffle/mx.truffle/mx_truffle.py\<close>. The classes work on the file system, so the
  file system is an explicit value: a finite map from paths to nodes. A directory node
  carries its listing, in the order \<^verbatim>\<open>os.listdir\<close> returns it; the program never sorts it.
  Paths follow the POSIX rules of \<^verbatim>\<open>os.path\<close>.
\<close>

subsection \<open>Paths and the file system\<close>

type_synonym path = string

datatype node = File nat | Dir nat "string list"

type_synonym fs = "path \<Rightarrow> node option"

datatype error =
    AssertionError
  | AttributeError
  | FileNotFoundError
  | NotADirectoryError
  | ExtractFailed
  | PatchFailed path
  | BuildFailed

definition exists_path :: "fs \<Rightarrow> path \<Rightarrow> bool" where
  "exists_path fs p = (case fs p of None \<Rightarrow> False | Some n \<Rightarrow> True)"

definition isdir :: "fs \<Rightarrow> path \<Rightarrow> bool" where
  "isdir fs p = (case fs p of Some (Dir m es) \<Rightarrow> True | _ \<Rightarrow> False)"

definition listdir :: "fs \<Rightarrow> path \<Rightarrow> error + string list" where
  "listdir fs p =
     (case fs p of
        None \<Rightarrow> Inl FileNotFoundError
      | Some (File m) \<Rightarrow> Inl NotADirectoryError
      | Some (Dir m es) \<Rightarrow> Inr es)"

fun mtime :: "node \<Rightarrow> nat" where
  "mtime (File m) = m"
| "mtime (Dir m es) = m"

text \<open>\<^verbatim>\<open>os.path.join\<close> with two arguments (\<^verbatim>\<open>mx.join\<close> is that function).\<close>

definition join :: "path \<Rightarrow> path \<Rightarrow> path" where
  "join a b =
     (if b \<noteq> [] \<and> hd b = CHR ''/'' then b
      else if a = [] \<or> last a = CHR ''/'' then a @ b
      else a @ ''/'' @ b)"

definition basename :: "path \<Rightarrow> path" where
  "basename p = rev (takeWhile (\<lambda>c. c \<noteq> CHR ''/'') (rev p))"

definition dirname :: "path \<Rightarrow> path" where
  "dirname p =
     (let head = rev (dropWhile (\<lambda>c. c \<noteq> CHR ''/'') (rev p))
      in if head \<noteq> [] \<and> \<not> list_all (\<lambda>c. c = CHR ''/'') head
         then rev (dropWhile (\<lambda>c. c = CHR ''/'') (rev head))
         else head)"

subsection \<open>The platform and the project\<close>

text \<open>
  \<^verbatim>\<open>mx.get_os()\<close> and \<^verbatim>\<open>mx.get_arch()\<close> are queries of the running process, and
  their answers do not change while it runs. The program calls them where it needs the
  answer, so the model passes the answers of the process, a \<open>host\<close>, to every function
  that calls them: the constructor of a project and each later call on it receive the
  same host.
\<close>

record host =
  get_os :: string
  get_arch :: string

datatype delegate_kind = DefaultNativeProject | LibtoolNativeProject

record delegate_project =
  kind :: delegate_kind
  delegate_dir :: path
  delegate_output :: "path option"
  delegate_results :: "string list"

record project =
  suite_dir :: path
  name :: string
  dir :: path
  out_dir :: path
  deps :: "path list"
  delegate :: delegate_project

text \<open>
  \<^verbatim>\<open>LibffiBuilderProject.__init__\<close>. \<open>output_root\<close> is what \<^verbatim>\<open>get_output_root()\<close>
  returns; a dependency is represented by the path of its archive. Only the choice of
  the delegate reads the operating system; neither the operating system nor the
  architecture is stored in the project. The output directory and the result list are
  arguments of the libtool delegate only; the other delegate computes its own.
\<close>

definition LibffiBuilderProject_init ::
  "host \<Rightarrow> path \<Rightarrow> string \<Rightarrow> path list \<Rightarrow> path \<Rightarrow> project" where
  "LibffiBuilderProject_init h suite nm ds output_root =
     (let subDir = ''src'';
          d = join (join suite subDir) nm;
          out = output_root
      in \<lparr>suite_dir = suite, name = nm, dir = d, out_dir = out, deps = ds,
          delegate =
            (if get_os h = ''windows''
             then \<lparr>kind = DefaultNativeProject,
                   delegate_dir = join out ''libffi-3.4.6'',
                   delegate_output = None,
                   delegate_results = []\<rparr>
             else \<lparr>kind = LibtoolNativeProject,
                   delegate_dir = join out ''libffi-3.4.6'',
                   delegate_output = Some (join out ''libffi-build''),
                   delegate_results = [''.libs/libffi.a'', ''include/ffi.h'', ''include/ffitarget.h'']\<rparr>)\<rparr>)"

text \<open>\<^verbatim>\<open>source_dirs()\<close>: the project's directory joined with each of \<^verbatim>\<open>srcDirs\<close>,
  which \<^verbatim>\<open>__init__\<close> fixes to \<^verbatim>\<open>['patches']\<close>.\<close>

definition source_dirs :: "project \<Rightarrow> path list" where
  "source_dirs P = map (join (dir P)) [''patches'']"

definition patch_dir :: "project \<Rightarrow> string \<Rightarrow> path" where
  "patch_dir P d = join (hd (source_dirs P)) d"

definition os_arch_name :: "host \<Rightarrow> string" where
  "os_arch_name h = get_os h @ ''-'' @ get_arch h"

subsection \<open>The patch resolver\<close>

definition get_patches :: "fs \<Rightarrow> path \<Rightarrow> error + path list" where
  "get_patches fs patchdir =
     (if isdir fs patchdir
      then (case listdir fs patchdir of
              Inl e \<Rightarrow> Inl e
            | Inr es \<Rightarrow> Inr (map (join patchdir) es))
      else Inr [])"

definition patches :: "project \<Rightarrow> host \<Rightarrow> fs \<Rightarrow> error + path list" where
  "patches P h fs =
     (case get_patches fs (patch_dir P ''common'') of
        Inl e \<Rightarrow> Inl e
      | Inr common \<Rightarrow>
          (let os_arch_dir = patch_dir P (os_arch_name h)
           in case (if exists_path fs os_arch_dir
                    then get_patches fs os_arch_dir
                    else get_patches fs (patch_dir P ''others'')) of
                Inl e \<Rightarrow> Inl e
              | Inr rest \<Rightarrow> Inr (common @ rest)))"

text \<open>
  The specification's reading of one tier: all entries of a directory, in listing order,
  each joined to the directory; nothing when the path is no directory.
\<close>

definition patches_under :: "fs \<Rightarrow> path \<Rightarrow> path list" where
  "patches_under fs d = (case fs d of Some (Dir m es) \<Rightarrow> map (join d) es | _ \<Rightarrow> [])"

text \<open>
  The resolution with the platform tier chosen by "the subdirectory \<^verbatim>\<open><os>-<arch>\<close>
  exists", read as: the path is a directory.
\<close>

definition tier_by_subdirectory :: "project \<Rightarrow> host \<Rightarrow> fs \<Rightarrow> path list" where
  "tier_by_subdirectory P h fs =
     patches_under fs (patch_dir P ''common'') @
     (if isdir fs (patch_dir P (os_arch_name h))
      then patches_under fs (patch_dir P (os_arch_name h))
      else patches_under fs (patch_dir P ''others''))"

subsection \<open>Time stamps\<close>

record tsfile =
  ts_path :: path
  timestamp :: "nat option"

text \<open>
  Modelled from the spec: \<^verbatim>\<open>mx.TimeStampFile\<close>, a class of the mx library that is not
  among the sources. Following section 4.3 (b) and the glossary entry on freshness, a time
  stamp file is a path with the modification time read when it was created (none when
  the path did not exist), \<open>isOlderThan\<close> compares modification times, and
  \<open>TimeStampFile_newest\<close> is the existing path with the latest modification time.
\<close>

definition TimeStampFile :: "fs \<Rightarrow> path \<Rightarrow> tsfile" where
  "TimeStampFile fs p = \<lparr>ts_path = p, timestamp = map_option mtime (fs p)\<rparr>"

text \<open>Modelled from the spec: \<^verbatim>\<open>TimeStampFile.exists()\<close> of mx, the path exists now.\<close>

definition ts_exists :: "fs \<Rightarrow> tsfile \<Rightarrow> bool" where
  "ts_exists fs t = exists_path fs (ts_path t)"

text \<open>Modelled from the spec: \<^verbatim>\<open>TimeStampFile.isOlderThan\<close> of mx, the comparison of
  modification times of section 4.3 (b); a time stamp file without a time is older than
  any other.\<close>

definition isOlderThan :: "tsfile \<Rightarrow> tsfile \<Rightarrow> bool" where
  "isOlderThan a b =
     (case timestamp a of
        None \<Rightarrow> True
      | Some ta \<Rightarrow> (case timestamp b of None \<Rightarrow> False | Some tb \<Rightarrow> ta < tb))"

text \<open>Modelled from the spec: the loop of \<^verbatim>\<open>TimeStampFile.newest\<close> of mx, which keeps
  the newest existing path seen so far.\<close>

fun newest_from :: "fs \<Rightarrow> tsfile option \<Rightarrow> path list \<Rightarrow> tsfile option" where
  "newest_from fs ts [] = ts"
| "newest_from fs ts (p # ps) =
     (if exists_path fs p
      then (case ts of
              None \<Rightarrow> newest_from fs (Some (TimeStampFile fs p)) ps
            | Some t \<Rightarrow>
                if isOlderThan t (TimeStampFile fs p)
                then newest_from fs (Some (TimeStampFile fs p)) ps
                else newest_from fs ts ps)
      else newest_from fs ts ps)"

text \<open>Modelled from the spec: \<^verbatim>\<open>TimeStampFile.newest\<close> of mx, "the newest patch file"
  of section 4.3 (b); none when no path of the list exists.\<close>

definition TimeStampFile_newest :: "fs \<Rightarrow> path list \<Rightarrow> tsfile option" where
  "TimeStampFile_newest fs ps = newest_from fs None ps"

subsection \<open>The collaborators of the task\<close>

text \<open>
  The archive extractor, \<^verbatim>\<open>git apply\<close> and the build task of the delegate are run by
  the task and are not part of the sources; they are parameters. Each command takes the
  file system and returns whether it succeeded and the file system it left behind.
  \<open>delegate_newestOutput\<close> is \<^verbatim>\<open>self.delegate.newestOutput()\<close>.
\<close>

record collab =
  extract_archive :: "path \<Rightarrow> path \<Rightarrow> fs \<Rightarrow> bool \<times> fs"
  git_apply :: "path \<Rightarrow> fs \<Rightarrow> bool \<times> fs"
  delegate_build :: "fs \<Rightarrow> bool \<times> fs"
  delegate_newestOutput :: "fs \<Rightarrow> tsfile option"

text \<open>The commands a build has run so far are recorded beside the file system, each
  with its arguments and whether it succeeded.\<close>

datatype event = Extract path path bool | GitApply path bool | DelegateBuild bool

record world =
  files :: fs
  trace :: "event list"

subsection \<open>LibffiBuildTask\<close>

text \<open>\<^verbatim>\<open>LibffiBuilderProject.sources\<close>: the single dependency, asserted to be the only one.\<close>

definition sources :: "project \<Rightarrow> error + path" where
  "sources P = (if length (deps P) = 1 then Inr (hd (deps P)) else Inl AssertionError)"

text \<open>\<^verbatim>\<open>LibffiBuildTask.newestOutput\<close>: the delegate's newest output, or \<^verbatim>\<open>None\<close> when
  that file does not exist.\<close>

definition newestOutput :: "collab \<Rightarrow> project \<Rightarrow> fs \<Rightarrow> tsfile option" where
  "newestOutput C P fs =
     (let output = delegate_newestOutput C fs
      in case output of
           None \<Rightarrow> output
         | Some t \<Rightarrow> if \<not> ts_exists fs t then None else output)"

text \<open>
  Modelled from the spec: the \<^verbatim>\<open>needsBuild\<close> that the task inherits from
  \<^verbatim>\<open>mx.AbstractNativeBuildTask\<close>, which is not among the sources. Section 4.3: the task
  is stale when (a) no prior output exists or a recorded output is missing, that is when
  \<^verbatim>\<open>self.newestOutput()\<close> is \<^verbatim>\<open>None\<close>, or (b) the newest output is older than the newest
  input handed in by the scheduler (the source archive).
\<close>

definition inherited_needsBuild :: "tsfile option \<Rightarrow> tsfile option \<Rightarrow> bool" where
  "inherited_needsBuild newestInput output =
     (case output of
        None \<Rightarrow> True
      | Some out \<Rightarrow> (case newestInput of None \<Rightarrow> False | Some i \<Rightarrow> isOlderThan out i))"

text \<open>
  \<^verbatim>\<open>LibffiBuildTask.needsBuild\<close>. The source returns the verdict with a message; the
  model keeps the verdict. \<^verbatim>\<open>output.isOlderThan\<close> on an output that is \<^verbatim>\<open>None\<close> raises
  \<^verbatim>\<open>AttributeError\<close>.
\<close>

definition needsBuild ::
  "collab \<Rightarrow> project \<Rightarrow> host \<Rightarrow> tsfile option \<Rightarrow> fs \<Rightarrow> error + bool" where
  "needsBuild C P h newestInput fs =
     (if inherited_needsBuild newestInput (newestOutput C P fs) then Inr True
      else
        (let output = newestOutput C P fs
         in case patches P h fs of
              Inl e \<Rightarrow> Inl e
            | Inr ps \<Rightarrow>
                (case TimeStampFile_newest fs ps of
                   None \<Rightarrow> Inr False
                 | Some newest_patch \<Rightarrow>
                     (case output of
                        None \<Rightarrow> Inl AttributeError
                      | Some out \<Rightarrow>
                          if isOlderThan out newest_patch then Inr True else Inr False))))"

text \<open>
  The second tier of the rebuild decision as the specification words it: the newest
  output is older than the newest patch file of the resolved patch set. \<open>output_older_than\<close>
  says that the recorded output is older than the time \<open>t\<close>.
\<close>

definition patch_stale :: "collab \<Rightarrow> project \<Rightarrow> host \<Rightarrow> fs \<Rightarrow> bool" where
  "patch_stale C P h fs =
     (case newestOutput C P fs of
        None \<Rightarrow> False
      | Some out \<Rightarrow>
          (case patches P h fs of
             Inl e \<Rightarrow> False
           | Inr ps \<Rightarrow>
               (case TimeStampFile_newest fs ps of
                  None \<Rightarrow> False
                | Some newest_patch \<Rightarrow> isOlderThan out newest_patch)))"

definition output_older_than :: "collab \<Rightarrow> project \<Rightarrow> fs \<Rightarrow> nat \<Rightarrow> bool" where
  "output_older_than C P fs t =
     (case newestOutput C P fs of
        None \<Rightarrow> True
      | Some out \<Rightarrow> (case timestamp out of None \<Rightarrow> True | Some tout \<Rightarrow> tout < t))"

text \<open>The loop \<^verbatim>\<open>for patch in ...: mx.run(git_apply + [patch])\<close>; a failing command
  aborts (\<^verbatim>\<open>mx.run\<close> does not return on a non-zero exit code).\<close>

fun apply_patches :: "collab \<Rightarrow> path list \<Rightarrow> world \<Rightarrow> error option \<times> world" where
  "apply_patches C [] w = (None, w)"
| "apply_patches C (p # ps) w =
     (case git_apply C p (files w) of
        (ok, fs') \<Rightarrow>
          (let w' = \<lparr>files = fs', trace = trace w @ [GitApply p ok]\<rparr>
           in if ok then apply_patches C ps w' else (Some (PatchFailed p), w')))"

text \<open>
  \<^verbatim>\<open>patches\<close> is a generator: the loop of \<^verbatim>\<open>build\<close> advances it between the runs of
  \<^verbatim>\<open>git apply\<close>. A tier's directory is therefore listed when the loop reaches the tier,
  on the file system as the patches applied so far have left it.
\<close>

definition apply_tier :: "collab \<Rightarrow> path \<Rightarrow> world \<Rightarrow> error option \<times> world" where
  "apply_tier C d w =
     (case get_patches (files w) d of
        Inl e \<Rightarrow> (Some e, w)
      | Inr ps \<Rightarrow> apply_patches C ps w)"

definition build :: "collab \<Rightarrow> project \<Rightarrow> host \<Rightarrow> world \<Rightarrow> error option \<times> world" where
  "build C P h w =
     (if exists_path (files w) (out_dir P) then (Some AssertionError, w)
      else
        (case sources P of
           Inl e \<Rightarrow> (Some e, w)
         | Inr src \<Rightarrow>
             (case extract_archive C src (out_dir P) (files w) of
                (ok, fs1) \<Rightarrow>
                  (let w1 = \<lparr>files = fs1, trace = trace w @ [Extract src (out_dir P) ok]\<rparr>
                   in if \<not> ok then (Some ExtractFailed, w1)
                      else
                        (case apply_tier C (patch_dir P ''common'') w1 of
                           (Some e, w2) \<Rightarrow> (Some e, w2)
                         | (None, w2) \<Rightarrow>
                             (case (if exists_path (files w2) (patch_dir P (os_arch_name h))
                                    then apply_tier C (patch_dir P (os_arch_name h)) w2
                                    else apply_tier C (patch_dir P ''others'') w2) of
                                (Some e, w3) \<Rightarrow> (Some e, w3)
                              | (None, w3) \<Rightarrow>
                                  (case delegate_build C (files w3) of
                                     (ok', fs4) \<Rightarrow>
                                       (if ok' then None else Some BuildFailed,
                                        \<lparr>files = fs4, trace = trace w3 @ [DelegateBuild ok']\<rparr>))))))))"

text \<open>The path \<open>q\<close> lies below the directory \<open>p\<close>.\<close>

definition under :: "path \<Rightarrow> path \<Rightarrow> bool" where
  "under p q = (take (length p + 1) q = p @ ''/'')"

text \<open>
  Modelled from the spec: the effect of \<^verbatim>\<open>mx.rmtree\<close>, a function of the mx library that
  is not among the sources. Section 4.3: it recursively removes the directory, that is the
  path and every path below it. The entry is also dropped from the listing of the parent
  directory; modification times of directories are left as they are.
\<close>

definition remove_tree :: "path \<Rightarrow> fs \<Rightarrow> fs" where
  "remove_tree p fs =
     (\<lambda>q. if q = p \<or> under p q then None
          else if q = dirname p
               then (case fs q of
                       Some (Dir m es) \<Rightarrow> Some (Dir m (removeAll (basename p) es))
                     | n \<Rightarrow> n)
               else fs q)"

text \<open>
  Modelled from the spec: \<^verbatim>\<open>mx.rmtree(path, ignore_errors)\<close>. Section 4.3: with
  \<^verbatim>\<open>ignore_errors\<close> the error of removing a path that does not exist is tolerated.
\<close>

definition rmtree :: "path \<Rightarrow> bool \<Rightarrow> fs \<Rightarrow> error option \<times> fs" where
  "rmtree p ignore_errors fs =
     (if \<not> exists_path fs p \<and> \<not> ignore_errors then (Some FileNotFoundError, fs)
      else (None, remove_tree p fs))"

text \<open>\<^verbatim>\<open>LibffiBuildTask.clean\<close>: \<^verbatim>\<open>mx.rmtree(self.subject.out_dir, ignore_errors=True)\<close>.\<close>

definition clean :: "project \<Rightarrow> bool \<Rightarrow> world \<Rightarrow> error option \<times> world" where
  "clean P forBuild w =
     (case rmtree (out_dir P) True (files w) of
        (e, fs') \<Rightarrow> (e, \<lparr>files = fs', trace = trace w\<rparr>))"

text \<open>
  The delegate's output lies in the working directory: whatever the delegate reports as
  its newest output is \<^verbatim>\<open>out_dir\<close> or a path below it. (\<^verbatim>\<open>__init__\<close> places the
  delegate's directories below \<^verbatim>\<open>out_dir\<close>.)
\<close>

definition output_in_out_dir :: "collab \<Rightarrow> project \<Rightarrow> bool" where
  "output_in_out_dir C P =
     (\<forall>fs t. delegate_newestOutput C fs = Some t \<longrightarrow>
        ts_path t = out_dir P \<or> under (out_dir P) (ts_path t))"

text \<open>
  The patch directories as a command may leave them: the nodes at the three tier paths
  are those of the file system before.
\<close>

definition keeps_patch_dirs :: "project \<Rightarrow> host \<Rightarrow> fs \<Rightarrow> fs \<Rightarrow> bool" where
  "keeps_patch_dirs P h fs fs' =
     (fs' (patch_dir P ''common'') = fs (patch_dir P ''common'') \<and>
      fs' (patch_dir P (os_arch_name h)) = fs (patch_dir P (os_arch_name h)) \<and>
      fs' (patch_dir P ''others'') = fs (patch_dir P ''others''))"

text \<open>The tier that follows \<^verbatim>\<open>common\<close> in a resolution on the file system \<open>fs\<close>.\<close>

definition rest_tier :: "project \<Rightarrow> host \<Rightarrow> fs \<Rightarrow> path list" where
  "rest_tier P h fs =
     (if exists_path fs (patch_dir P (os_arch_name h))
      then patches_under fs (patch_dir P (os_arch_name h))
      else patches_under fs (patch_dir P ''others''))"

subsection \<open>LibtoolNativeProject.getArchivableResults\<close>

text \<open>
  A generator is the sequence of the values it yields, ended by its return or by the
  exception it raises. A consumer that stops early never runs the rest: an assertion
  placed after a \<^verbatim>\<open>yield\<close> is checked when the generator is resumed.
\<close>

datatype 'a gen = Stop | Raise error | Yield 'a "'a gen"

fun yielded :: "'a gen \<Rightarrow> 'a list" where
  "yielded Stop = []"
| "yielded (Raise e) = []"
| "yielded (Yield x g) = x # yielded g"

fun raised :: "'a gen \<Rightarrow> error option" where
  "raised Stop = None"
| "raised (Raise e) = Some e"
| "raised (Yield x g) = raised g"

text \<open>The first argument is what the inherited \<^verbatim>\<open>getArchivableResults(use_relpath)\<close>
  yields: pairs of a file path and an archive path.\<close>

fun getArchivableResults :: "(path \<times> path) list \<Rightarrow> bool \<Rightarrow> (path \<times> path) gen" where
  "getArchivableResults [] single = Stop"
| "getArchivableResults ((file_path, archive_path) # rest) single =
     (let path_in_lt_objdir = (basename (dirname file_path) = ''.libs'')
      in Yield (file_path, if path_in_lt_objdir then basename archive_path else archive_path)
           (if single
            then (if path_in_lt_objdir then Stop else Raise AssertionError)
            else getArchivableResults rest single))"

subsection \<open>Touching a file\<close>

text \<open>Updating the modification time of an existing path; a missing path stays missing.\<close>

definition touch :: "path \<Rightarrow> nat \<Rightarrow> fs \<Rightarrow> fs" where
  "touch p t fs =
     (case fs p of
        None \<Rightarrow> fs
      | Some (File m) \<Rightarrow> fs(p \<mapsto> File t)
      | Some (Dir m es) \<Rightarrow> fs(p \<mapsto> Dir t es))"

subsection \<open>A sample tree\<close>

text \<open>
  The end-to-end scenario of the specification: \<^verbatim>\<open>common/P1\<close>, \<^verbatim>\<open>linux-amd64/P2\<close> and
  \<^verbatim>\<open>others/P3\<close> under the patch root of the project \<^verbatim>\<open>libffi\<close> of the suite \<^verbatim>\<open>/s\<close>.
\<close>

definition linux_amd64 :: host where
  "linux_amd64 = \<lparr>get_os = ''linux'', get_arch = ''amd64''\<rparr>"

definition darwin_amd64 :: host where
  "darwin_amd64 = \<lparr>get_os = ''darwin'', get_arch = ''amd64''\<rparr>"

definition sample_project :: project where
  "sample_project =
     LibffiBuilderProject_init linux_amd64 ''/s'' ''libffi'' [''/s/libffi-3.4.6.tar.gz''] ''/o''"

definition sample_fs :: fs where
  "sample_fs =
     [''/s/src/libffi/patches'' \<mapsto> Dir 1 [''common'', ''linux-amd64'', ''others''],
      ''/s/src/libffi/patches/common'' \<mapsto> Dir 1 [''P1''],
      ''/s/src/libffi/patches/common/P1'' \<mapsto> File 10,
      ''/s/src/libffi/patches/linux-amd64'' \<mapsto> Dir 1 [''P2''],
      ''/s/src/libffi/patches/linux-amd64/P2'' \<mapsto> File 20,
      ''/s/src/libffi/patches/others'' \<mapsto> Dir 1 [''P3''],
      ''/s/src/libffi/patches/others/P3'' \<mapsto> File 30]"

text \<open>
  Sample collaborators: the extractor creates the working directory, \<^verbatim>\<open>git apply\<close>
  fails on one given patch and changes nothing, the delegate writes the static library.
  \<open>fresh_world\<close> is the sample tree before any build, \<open>stale_world\<close> the sample
  tree with a working directory left by an earlier build.
\<close>

definition sample_tools :: "path \<Rightarrow> collab" where
  "sample_tools bad =
     \<lparr>extract_archive = (\<lambda>src dst fs. (True, fs(dst \<mapsto> Dir 40 []))),
      git_apply = (\<lambda>p fs. (p \<noteq> bad, fs)),
      delegate_build = (\<lambda>fs. (True, fs(''/o/libffi-build/.libs/libffi.a'' \<mapsto> File 50))),
      delegate_newestOutput = (\<lambda>fs. Some (TimeStampFile fs ''/o/libffi-build/.libs/libffi.a''))\<rparr>"

definition fresh_world :: world where
  "fresh_world = \<lparr>files = sample_fs, trace = []\<rparr>"

definition stale_world :: world where
  "stale_world = \<lparr>files = sample_fs(''/o'' \<mapsto> Dir 40 [''libffi-build''],
                                     ''/o/libffi-build/.libs/libffi.a'' \<mapsto> File 50),
                  trace = []\<rparr>"

definition sample_results :: "(path \<times> path) list" where
  "sample_results =
     [(''/o/libffi-build/.libs/libffi.a'', ''.libs/libffi.a''),
      (''/o/libffi-build/include/ffi.h'', ''include/ffi.h'')]"

text \<open>A tree with no \<^verbatim>\<open>common\<close> and no platform directory, one whose platform path is
  a regular file, and the sample tree with a directory for a second platform.\<close>

definition others_only_fs :: fs where
  "others_only_fs =
     [''/s/src/libffi/patches'' \<mapsto> Dir 1 [''others''],
      ''/s/src/libffi/patches/others'' \<mapsto> Dir 1 [''P3''],
      ''/s/src/libffi/patches/others/P3'' \<mapsto> File 30]"

definition platform_file_fs :: fs where
  "platform_file_fs = sample_fs(''/s/src/libffi/patches/linux-amd64'' \<mapsto> File 5)"


section \<open>Properties of the patch resolver\<close>

lemma get_patches_eq: "get_patches fs d = Inr (patches_under fs d)"
  by (simp add: get_patches_def patches_under_def isdir_def listdir_def
      split: option.split node.split)

lemma patches_eq:
  "patches P h fs =
     Inr (patches_under fs (patch_dir P ''common'') @
          (if exists_path fs (patch_dir P (os_arch_name h))
           then patches_under fs (patch_dir P (os_arch_name h))
           else patches_under fs (patch_dir P ''others'')))"
  by (simp add: patches_def get_patches_eq)

lemma sample_patch_dirs:
  "patch_dir sample_project ''common'' = ''/s/src/libffi/patches/common''"
  "patch_dir sample_project ''others'' = ''/s/src/libffi/patches/others''"
  "patch_dir sample_project (os_arch_name linux_amd64) = ''/s/src/libffi/patches/linux-amd64''"
  "patch_dir sample_project (os_arch_name darwin_amd64) = ''/s/src/libffi/patches/darwin-amd64''"
  by (simp_all add: patch_dir_def source_dirs_def sample_project_def
      LibffiBuilderProject_init_def join_def os_arch_name_def linux_amd64_def darwin_amd64_def)

lemma sample_nodes:
  "sample_fs ''/s/src/libffi/patches/common'' = Some (Dir 1 [''P1''])"
  "sample_fs ''/s/src/libffi/patches/linux-amd64'' = Some (Dir 1 [''P2''])"
  "sample_fs ''/s/src/libffi/patches/others'' = Some (Dir 1 [''P3''])"
  "sample_fs ''/s/src/libffi/patches/darwin-amd64'' = None"
  by (simp_all add: sample_fs_def)

lemma sample_under:
  "patches_under sample_fs ''/s/src/libffi/patches/common'' =
     [''/s/src/libffi/patches/common/P1'']"
  "patches_under sample_fs ''/s/src/libffi/patches/linux-amd64'' =
     [''/s/src/libffi/patches/linux-amd64/P2'']"
  "patches_under sample_fs ''/s/src/libffi/patches/others'' =
     [''/s/src/libffi/patches/others/P3'']"
  by (simp_all add: patches_under_def sample_nodes join_def)

lemma get_patches_missing: "\<not> exists_path fs d \<Longrightarrow> get_patches fs d = Inr []"
  by (simp add: get_patches_eq patches_under_def exists_path_def split: option.splits)

lemma others_only_nodes:
  "others_only_fs ''/s/src/libffi/patches/common'' = None"
  "others_only_fs ''/s/src/libffi/patches/linux-amd64'' = None"
  "others_only_fs ''/s/src/libffi/patches/others'' = Some (Dir 1 [''P3''])"
  by (simp_all add: others_only_fs_def)

lemma platform_file_nodes:
  "platform_file_fs ''/s/src/libffi/patches/common'' = Some (Dir 1 [''P1''])"
  "platform_file_fs ''/s/src/libffi/patches/linux-amd64'' = Some (File 5)"
  "platform_file_fs ''/s/src/libffi/patches/others'' = Some (Dir 1 [''P3''])"
  by (simp_all add: platform_file_fs_def sample_fs_def)



text \<open>
  C1, as the code has it. For every project, platform and file system the resolver
  returns the patches under \<^verbatim>\<open>common\<close>, in listing order, followed by the patches under
  \<^verbatim>\<open><os>-<arch>\<close> when that path exists, whatever it is, and by the patches under
  \<^verbatim>\<open>others\<close> otherwise; one resolution never lists both of the last two tiers. A path
  that is no directory has no patches under it. Whenever the platform path is a directory
  or does not exist, this is the resolution that chooses the platform tier by "the
  subdirectory exists". The sample tree resolves to \<^verbatim>\<open>[P1, P2]\<close> for (linux, amd64) and
  to \<^verbatim>\<open>[P1, P3]\<close> for (darwin, amd64).
\<close>

theorem patches_resolution:
  "patches P h fs =
     Inr (patches_under fs (patch_dir P ''common'') @
          (if exists_path fs (patch_dir P (os_arch_name h))
           then patches_under fs (patch_dir P (os_arch_name h))
           else patches_under fs (patch_dir P ''others''))) \<and>
   (isdir fs (patch_dir P (os_arch_name h)) \<or> \<not> exists_path fs (patch_dir P (os_arch_name h)) \<longrightarrow>
      patches P h fs = Inr (tier_by_subdirectory P h fs))"
  by (auto simp: patches_eq tier_by_subdirectory_def isdir_def exists_path_def
      split: option.splits node.splits)

theorem patches_resolution_witness:
  "isdir sample_fs (patch_dir sample_project (os_arch_name linux_amd64)) \<and>
   \<not> exists_path sample_fs (patch_dir sample_project (os_arch_name darwin_amd64)) \<and>
   patches sample_project linux_amd64 sample_fs =
     Inr [''/s/src/libffi/patches/common/P1'', ''/s/src/libffi/patches/linux-amd64/P2''] \<and>
   patches sample_project darwin_amd64 sample_fs =
     Inr [''/s/src/libffi/patches/common/P1'', ''/s/src/libffi/patches/others/P3''] \<and>
   tier_by_subdirectory sample_project linux_amd64 sample_fs =
     [''/s/src/libffi/patches/common/P1'', ''/s/src/libffi/patches/linux-amd64/P2''] \<and>
   tier_by_subdirectory sample_project darwin_amd64 sample_fs =
     [''/s/src/libffi/patches/common/P1'', ''/s/src/libffi/patches/others/P3'']"
proof -
  have dir: "isdir sample_fs (patch_dir sample_project (os_arch_name linux_amd64))"
    by (simp add: sample_patch_dirs isdir_def sample_nodes)
  have missing: "\<not> exists_path sample_fs (patch_dir sample_project (os_arch_name darwin_amd64))"
    by (simp add: sample_patch_dirs exists_path_def sample_nodes)
  have on_linux: "patches sample_project linux_amd64 sample_fs =
      Inr [''/s/src/libffi/patches/common/P1'', ''/s/src/libffi/patches/linux-amd64/P2'']"
    by (simp add: patches_eq sample_patch_dirs sample_under exists_path_def sample_nodes)
  have on_darwin: "patches sample_project darwin_amd64 sample_fs =
      Inr [''/s/src/libffi/patches/common/P1'', ''/s/src/libffi/patches/others/P3'']"
    by (simp add: patches_eq sample_patch_dirs sample_under exists_path_def sample_nodes)
  have agree_linux: "patches sample_project linux_amd64 sample_fs =
      Inr (tier_by_subdirectory sample_project linux_amd64 sample_fs)"
    using patches_resolution [of sample_project linux_amd64 sample_fs] dir by blast
  have agree_darwin: "patches sample_project darwin_amd64 sample_fs =
      Inr (tier_by_subdirectory sample_project darwin_amd64 sample_fs)"
    using patches_resolution [of sample_project darwin_amd64 sample_fs] missing by blast
  have worded_linux: "tier_by_subdirectory sample_project linux_amd64 sample_fs =
      [''/s/src/libffi/patches/common/P1'', ''/s/src/libffi/patches/linux-amd64/P2'']"
    using on_linux agree_linux by simp
  have worded_darwin: "tier_by_subdirectory sample_project darwin_amd64 sample_fs =
      [''/s/src/libffi/patches/common/P1'', ''/s/src/libffi/patches/others/P3'']"
    using on_darwin agree_darwin by simp
  show ?thesis
    using dir missing on_linux on_darwin worded_linux worded_darwin by blast
qed

text \<open>
  C1 with "the subdirectory exists" read as "is a directory" fails where the platform
  path is a regular file: that reading falls back to \<^verbatim>\<open>others\<close> and gives \<^verbatim>\<open>[P1, P3]\<close>;
  the resolver, which tests the path with \<^verbatim>\<open>mx.exists\<close>, gives \<^verbatim>\<open>[P1]\<close>.
\<close>

theorem patches_resolution_counterexample:
  "exists_path platform_file_fs (patch_dir sample_project (os_arch_name linux_amd64)) \<and>
   \<not> isdir platform_file_fs (patch_dir sample_project (os_arch_name linux_amd64)) \<and>
   tier_by_subdirectory sample_project linux_amd64 platform_file_fs =
     [''/s/src/libffi/patches/common/P1'', ''/s/src/libffi/patches/others/P3''] \<and>
   patches sample_project linux_amd64 platform_file_fs =
     Inr [''/s/src/libffi/patches/common/P1''] \<and>
   patches sample_project linux_amd64 platform_file_fs \<noteq>
     Inr (tier_by_subdirectory sample_project linux_amd64 platform_file_fs)"
  by (simp add: patches_eq tier_by_subdirectory_def sample_patch_dirs exists_path_def isdir_def
      platform_file_nodes patches_under_def join_def)

text \<open>
  C8. Resolution never fails, and a tier whose directory is missing contributes no patch:
  \<^verbatim>\<open>get_patches\<close> yields nothing for a path that does not exist, so without \<^verbatim>\<open>common\<close>
  the result is the platform or \<^verbatim>\<open>others\<close> tier alone, without the platform directory
  it is \<^verbatim>\<open>common\<close> followed by \<^verbatim>\<open>others\<close>, and without both of the latter it is
  \<^verbatim>\<open>common\<close> alone.
\<close>

theorem missing_tier_contributes_nothing:
  "(\<exists>ps. patches P h fs = Inr ps) \<and>
   (\<not> exists_path fs d \<longrightarrow> get_patches fs d = Inr []) \<and>
   (\<not> exists_path fs (patch_dir P ''common'') \<longrightarrow>
      patches P h fs =
        Inr (if exists_path fs (patch_dir P (os_arch_name h))
             then patches_under fs (patch_dir P (os_arch_name h))
             else patches_under fs (patch_dir P ''others''))) \<and>
   (\<not> exists_path fs (patch_dir P (os_arch_name h)) \<longrightarrow>
      patches P h fs =
        Inr (patches_under fs (patch_dir P ''common'') @ patches_under fs (patch_dir P ''others''))) \<and>
   (\<not> exists_path fs (patch_dir P (os_arch_name h)) \<and> \<not> exists_path fs (patch_dir P ''others'') \<longrightarrow>
      patches P h fs = Inr (patches_under fs (patch_dir P ''common'')))"
  by (simp add: patches_eq get_patches_missing patches_under_def exists_path_def split: option.splits)

theorem missing_tier_contributes_nothing_witness:
  "\<not> exists_path others_only_fs (patch_dir sample_project ''common'') \<and>
   \<not> exists_path others_only_fs (patch_dir sample_project (os_arch_name linux_amd64)) \<and>
   get_patches others_only_fs (patch_dir sample_project ''common'') = Inr [] \<and>
   patches sample_project linux_amd64 others_only_fs = Inr [''/s/src/libffi/patches/others/P3''] \<and>
   \<not> exists_path Map.empty (patch_dir sample_project ''others'') \<and>
   patches sample_project linux_amd64 Map.empty = Inr []"
  using missing_tier_contributes_nothing
          [of sample_project linux_amd64 others_only_fs "patch_dir sample_project ''common''"]
        missing_tier_contributes_nothing
          [of sample_project linux_amd64 Map.empty "patch_dir sample_project ''others''"]
  by (simp add: sample_patch_dirs exists_path_def others_only_nodes patches_under_def join_def)

text \<open>
  C9. When the path \<^verbatim>\<open><patchRoot>/<os>-<arch>\<close> exists as a regular file, the resolver
  returns the \<^verbatim>\<open>common\<close> patches only: the path exists, so \<^verbatim>\<open>others\<close> is skipped, and it
  is no directory, so it lists nothing.
\<close>

theorem platform_path_is_file:
  "fs (patch_dir P (os_arch_name h)) = Some (File m) \<Longrightarrow>
   patches P h fs = Inr (patches_under fs (patch_dir P ''common''))"
  by (simp add: patches_eq exists_path_def patches_under_def)

theorem platform_path_is_file_witness:
  "platform_file_fs (patch_dir sample_project (os_arch_name linux_amd64)) = Some (File 5) \<and>
   patches_under platform_file_fs (patch_dir sample_project ''others'') =
     [''/s/src/libffi/patches/others/P3''] \<and>
   patches sample_project linux_amd64 platform_file_fs = Inr [''/s/src/libffi/patches/common/P1'']"
  using platform_path_is_file [of platform_file_fs sample_project linux_amd64 5]
  by (simp add: sample_patch_dirs platform_file_nodes patches_under_def join_def)





section \<open>Properties of the build task\<close>

lemma sample_out_dir: "out_dir sample_project = ''/o''"
  by (simp add: sample_project_def LibffiBuilderProject_init_def Let_def)

lemma remove_tree_gone: "q = p \<or> under p q \<Longrightarrow> remove_tree p fs q = None"
  by (simp add: remove_tree_def)

lemma remove_tree_idem: "remove_tree p (remove_tree p fs) = remove_tree p fs"
  by (rule ext) (simp add: remove_tree_def split: option.splits node.splits)

lemma clean_eq: "clean P b w = (None, \<lparr>files = remove_tree (out_dir P) (files w), trace = trace w\<rparr>)"
  by (simp add: clean_def rmtree_def)

lemma newestOutput_after_clean:
  assumes "output_in_out_dir C P"
  shows "newestOutput C P (remove_tree (out_dir P) fs) = None"
  using assms
  by (auto simp: output_in_out_dir_def newestOutput_def Let_def ts_exists_def exists_path_def remove_tree_gone
      split: option.splits)

lemma apply_tier_eq: "apply_tier C d w = apply_patches C (patches_under (files w) d) w"
  by (simp add: apply_tier_def get_patches_eq)

lemma keeps_refl: "keeps_patch_dirs P h fs fs"
  by (simp add: keeps_patch_dirs_def)

lemma keeps_trans:
  "keeps_patch_dirs P h fs fs' \<Longrightarrow> keeps_patch_dirs P h fs' fs'' \<Longrightarrow> keeps_patch_dirs P h fs fs''"
  by (simp add: keeps_patch_dirs_def)

lemma apply_patches_keeps:
  assumes frame: "\<forall>p fs. keeps_patch_dirs P h fs (snd (git_apply C p fs))"
  shows "keeps_patch_dirs P h (files w) (files (snd (apply_patches C ps w)))"
proof (induction ps arbitrary: w)
  case Nil
  show ?case by (simp add: keeps_refl)
next
  case (Cons p ps)
  obtain ok fs' where g: "git_apply C p (files w) = (ok, fs')" by (cases "git_apply C p (files w)")
  have k: "keeps_patch_dirs P h (files w) fs'" using frame [rule_format, of "files w" p] g by simp
  show ?case
  proof (cases ok)
    case True
    have "keeps_patch_dirs P h fs'
            (files (snd (apply_patches C ps \<lparr>files = fs', trace = trace w @ [GitApply p ok]\<rparr>)))"
      using Cons.IH [of "\<lparr>files = fs', trace = trace w @ [GitApply p ok]\<rparr>"] by simp
    with k True g show ?thesis by (auto intro: keeps_trans)
  next
    case False
    with k g show ?thesis by simp
  qed
qed

lemma apply_patches_append:
  "apply_patches C (xs @ ys) w =
     (case apply_patches C xs w of
        (Some e, w') \<Rightarrow> (Some e, w')
      | (None, w') \<Rightarrow> apply_patches C ys w')"
  by (induction xs arbitrary: w) (auto simp: Let_def split: prod.splits)

lemma apply_patches_run:
  "(\<exists>w'. apply_patches C ps w = (None, w') \<and>
         trace w' = trace w @ map (\<lambda>p. GitApply p True) ps) \<or>
   (\<exists>n<length ps. \<exists>w'. apply_patches C ps w = (Some (PatchFailed (ps ! n)), w') \<and>
         trace w' = trace w @ map (\<lambda>p. GitApply p True) (take n ps) @ [GitApply (ps ! n) False])"
proof (induction ps arbitrary: w)
  case Nil
  show ?case by simp
next
  case (Cons p ps)
  obtain ok fs' where g: "git_apply C p (files w) = (ok, fs')" by (cases "git_apply C p (files w)")
  show ?case
  proof (cases ok)
    case False
    with g have "apply_patches C (p # ps) w =
        (Some (PatchFailed ((p # ps) ! 0)), \<lparr>files = fs', trace = trace w @ [GitApply p False]\<rparr>)"
      by simp
    then show ?thesis by (intro disjI2 exI [of _ 0]) simp
  next
    case True
    let ?w1 = "\<lparr>files = fs', trace = trace w @ [GitApply p True]\<rparr>"
    from g True have step: "apply_patches C (p # ps) w = apply_patches C ps ?w1" by simp
    from Cons.IH [of ?w1] show ?thesis
    proof
      assume "\<exists>w'. apply_patches C ps ?w1 = (None, w') \<and>
         trace w' = trace ?w1 @ map (\<lambda>p. GitApply p True) ps"
      with step show ?thesis by auto
    next
      assume "\<exists>n<length ps. \<exists>w'. apply_patches C ps ?w1 = (Some (PatchFailed (ps ! n)), w') \<and>
         trace w' = trace ?w1 @ map (\<lambda>p. GitApply p True) (take n ps) @ [GitApply (ps ! n) False]"
      then obtain n w' where n: "n < length ps"
        and r: "apply_patches C ps ?w1 = (Some (PatchFailed (ps ! n)), w')"
        and t: "trace w' = trace ?w1 @ map (\<lambda>p. GitApply p True) (take n ps) @ [GitApply (ps ! n) False]"
        by blast
      show ?thesis
        by (intro disjI2 exI [of _ "Suc n"]) (use n r t step in simp)
    qed
  qed
qed

lemma keeps_views:
  assumes "keeps_patch_dirs P h fs fs'"
  shows "patches_under fs' (patch_dir P ''common'') = patches_under fs (patch_dir P ''common'')"
    and "rest_tier P h fs' = rest_tier P h fs"
  using assms by (simp_all add: keeps_patch_dirs_def patches_under_def exists_path_def rest_tier_def)

lemma build_eager:
  assumes fe: "keeps_patch_dirs P h (files w) (snd (extract_archive C src (out_dir P) (files w)))"
    and fa: "\<forall>p fs. keeps_patch_dirs P h fs (snd (git_apply C p fs))"
    and nex: "\<not> exists_path (files w) (out_dir P)"
    and src: "sources P = Inr src"
    and ok: "fst (extract_archive C src (out_dir P) (files w))"
    and ps: "patches P h (files w) = Inr ps"
  shows "build C P h w =
     (case apply_patches C ps
             \<lparr>files = snd (extract_archive C src (out_dir P) (files w)),
              trace = trace w @ [Extract src (out_dir P) True]\<rparr> of
        (Some e, w2) \<Rightarrow> (Some e, w2)
      | (None, w3) \<Rightarrow>
          (case delegate_build C (files w3) of
             (ok', fs4) \<Rightarrow>
               (if ok' then None else Some BuildFailed,
                \<lparr>files = fs4, trace = trace w3 @ [DelegateBuild ok']\<rparr>)))"
proof -
  obtain fs1 where ex: "extract_archive C src (out_dir P) (files w) = (True, fs1)"
    using ok by (cases "extract_archive C src (out_dir P) (files w)") simp
  let ?w1 = "\<lparr>files = fs1, trace = trace w @ [Extract src (out_dir P) True]\<rparr>"
  let ?cs = "patches_under (files w) (patch_dir P ''common'')"
  let ?rs = "rest_tier P h (files w)"
  have k1: "keeps_patch_dirs P h (files w) fs1"
    using fe ex by simp
  have ps_eq: "ps = ?cs @ ?rs" using ps by (simp add: patches_eq rest_tier_def)
  have tier1: "apply_tier C (patch_dir P ''common'') ?w1 = apply_patches C ?cs ?w1"
    by (simp add: apply_tier_eq keeps_views(1) [OF k1])
  obtain r2 w2 where a: "apply_patches C ?cs ?w1 = (r2, w2)"
    by (cases "apply_patches C ?cs ?w1")
  have k2: "keeps_patch_dirs P h (files w) (files w2)"
    using keeps_trans [OF k1] apply_patches_keeps [OF fa, of ?w1 ?cs] a by simp
  have tier2: "(if exists_path (files w2) (patch_dir P (os_arch_name h))
                then apply_tier C (patch_dir P (os_arch_name h)) w2
                else apply_tier C (patch_dir P ''others'') w2) = apply_patches C ?rs w2"
  proof -
    have "(if exists_path (files w2) (patch_dir P (os_arch_name h))
           then apply_tier C (patch_dir P (os_arch_name h)) w2
           else apply_tier C (patch_dir P ''others'') w2) =
          apply_patches C (rest_tier P h (files w2)) w2"
      by (simp add: apply_tier_eq rest_tier_def)
    then show ?thesis by (simp only: keeps_views(2) [OF k2])
  qed
  have lhs: "build C P h w =
      (case r2 of
         Some e \<Rightarrow> (Some e, w2)
       | None \<Rightarrow>
           (case apply_patches C ?rs w2 of
              (Some e, w3) \<Rightarrow> (Some e, w3)
            | (None, w3) \<Rightarrow>
                (case delegate_build C (files w3) of
                   (ok', fs4) \<Rightarrow>
                     (if ok' then None else Some BuildFailed,
                      \<lparr>files = fs4, trace = trace w3 @ [DelegateBuild ok']\<rparr>))))"
  proof -
    have t2a: "exists_path (files w2) (patch_dir P (os_arch_name h)) \<Longrightarrow>
        apply_tier C (patch_dir P (os_arch_name h)) w2 = apply_patches C ?rs w2"
      using tier2 by simp
    have t2b: "\<not> exists_path (files w2) (patch_dir P (os_arch_name h)) \<Longrightarrow>
        apply_tier C (patch_dir P ''others'') w2 = apply_patches C ?rs w2"
      using tier2 by simp
    show ?thesis
      unfolding build_def using nex src
      by (simp add: ex tier1 a t2a t2b split: option.splits)
  qed
  have rhs: "apply_patches C ps ?w1 =
      (case r2 of Some e \<Rightarrow> (Some e, w2) | None \<Rightarrow> apply_patches C ?rs w2)"
    by (simp add: ps_eq apply_patches_append a split: option.splits)
  show ?thesis
    unfolding lhs by (simp add: ex rhs split: option.splits prod.splits)
qed

lemma sample_sources: "sources sample_project = Inr ''/s/libffi-3.4.6.tar.gz''"
  by (simp add: sources_def sample_project_def LibffiBuilderProject_init_def Let_def)

lemma sample_keeps_apply:
  "\<forall>p fs. keeps_patch_dirs sample_project linux_amd64 fs (snd (git_apply (sample_tools bad) p fs))"
  by (simp add: sample_tools_def keeps_patch_dirs_def)

lemma sample_keeps_extract:
  "keeps_patch_dirs sample_project linux_amd64 (files fresh_world)
     (snd (extract_archive (sample_tools bad) ''/s/libffi-3.4.6.tar.gz'' (out_dir sample_project)
            (files fresh_world)))"
  by (simp add: sample_tools_def keeps_patch_dirs_def sample_out_dir sample_patch_dirs)

lemma sample_fresh:
  "\<not> exists_path (files fresh_world) (out_dir sample_project)"
  "fst (extract_archive (sample_tools bad) ''/s/libffi-3.4.6.tar.gz'' (out_dir sample_project)
         (files fresh_world))"
  "patches sample_project linux_amd64 (files fresh_world) =
     Inr [''/s/src/libffi/patches/common/P1'', ''/s/src/libffi/patches/linux-amd64/P2'']"
  by (simp_all add: fresh_world_def sample_out_dir exists_path_def sample_fs_def sample_tools_def
      patches_eq sample_patch_dirs patches_under_def join_def)

lemma sample_build_fails:
  "build (sample_tools ''/s/src/libffi/patches/common/P1'') sample_project linux_amd64 fresh_world =
     (Some (PatchFailed ''/s/src/libffi/patches/common/P1''),
      \<lparr>files = sample_fs(''/o'' \<mapsto> Dir 40 []),
       trace = [Extract ''/s/libffi-3.4.6.tar.gz'' ''/o'' True,
                GitApply ''/s/src/libffi/patches/common/P1'' False]\<rparr>)"
  by (simp add: build_def sample_out_dir sample_sources sample_patch_dirs fresh_world_def
      exists_path_def sample_tools_def apply_tier_eq patches_under_def sample_fs_def join_def)

lemma sample_build_succeeds:
  "build (sample_tools []) sample_project linux_amd64 fresh_world =
     (None,
      \<lparr>files = sample_fs(''/o'' \<mapsto> Dir 40 [], ''/o/libffi-build/.libs/libffi.a'' \<mapsto> File 50),
       trace = [Extract ''/s/libffi-3.4.6.tar.gz'' ''/o'' True,
                GitApply ''/s/src/libffi/patches/common/P1'' True,
                GitApply ''/s/src/libffi/patches/linux-amd64/P2'' True,
                DelegateBuild True]\<rparr>)"
  by (simp add: build_def sample_out_dir sample_sources sample_patch_dirs fresh_world_def
      exists_path_def sample_tools_def apply_tier_eq patches_under_def sample_fs_def join_def)

lemma needsBuild_eq:
  "needsBuild C P h newestInput fs =
     Inr (inherited_needsBuild newestInput (newestOutput C P fs) \<or> patch_stale C P h fs)"
  by (auto simp: needsBuild_def patch_stale_def patches_eq inherited_needsBuild_def Let_def
      split: option.splits)

lemma touch_other: "x \<noteq> p \<Longrightarrow> touch p t fs x = fs x"
  by (simp add: touch_def split: option.splits node.splits)

lemma touch_exists: "exists_path (touch p t fs) x = exists_path fs x"
  by (cases "x = p") (auto simp: touch_def exists_path_def split: option.splits node.splits)

lemma touch_patches_under: "patches_under (touch p t fs) d = patches_under fs d"
  by (cases "d = p") (auto simp: touch_def patches_under_def split: option.splits node.splits)

lemma touch_patches: "patches P h (touch p t fs) = patches P h fs"
  by (simp add: patches_eq touch_exists touch_patches_under)

lemma touch_mtime: "fs p = Some n \<Longrightarrow> \<exists>n'. touch p t fs p = Some n' \<and> mtime n' = t"
  by (cases n) (simp_all add: touch_def)

lemma touch_newestOutput:
  "delegate_newestOutput C (touch p t fs) = delegate_newestOutput C fs \<Longrightarrow>
   newestOutput C P (touch p t fs) = newestOutput C P fs"
  by (simp add: newestOutput_def ts_exists_def touch_exists Let_def split: option.splits)

lemma newest_from_cong:
  "\<forall>x\<in>set ps. fs' x = fs x \<Longrightarrow> newest_from fs' acc ps = newest_from fs acc ps"
  by (induction ps arbitrary: acc)
    (auto simp: exists_path_def TimeStampFile_def split: option.splits)

lemma newest_from_mono:
  "timestamp a = Some ta \<Longrightarrow>
   \<exists>np tn. newest_from fs (Some a) ps = Some np \<and> timestamp np = Some tn \<and> ta \<le> tn"
proof (induction ps arbitrary: a ta)
  case Nil
  then show ?case by simp
next
  case (Cons p ps)
  show ?case
  proof (cases "fs p")
    case None
    with Cons show ?thesis by (simp add: exists_path_def)
  next
    case (Some n)
    have ts: "timestamp (TimeStampFile fs p) = Some (mtime n)"
      by (simp add: TimeStampFile_def Some)
    show ?thesis
    proof (cases "ta < mtime n")
      case True
      from Cons.IH [OF ts] obtain np tn
        where "newest_from fs (Some (TimeStampFile fs p)) ps = Some np"
          and "timestamp np = Some tn" and "mtime n \<le> tn" by blast
      with True Some ts Cons.prems show ?thesis
        by (simp add: exists_path_def isOlderThan_def)
    next
      case False
      with Cons.IH [OF Cons.prems] Some ts Cons.prems show ?thesis
        by (simp add: exists_path_def isOlderThan_def)
    qed
  qed
qed

lemma newest_from_covers:
  assumes "p \<in> set ps" and "fs p = Some n"
    and "\<And>a. acc = Some a \<Longrightarrow> timestamp a \<noteq> None"
  shows "\<exists>np tn. newest_from fs acc ps = Some np \<and> timestamp np = Some tn \<and> mtime n \<le> tn"
  using assms
proof (induction ps arbitrary: acc)
  case Nil
  then show ?case by simp
next
  case (Cons x xs)
  show ?case
  proof (cases "x = p")
    case True
    have ts: "timestamp (TimeStampFile fs p) = Some (mtime n)"
      by (simp add: TimeStampFile_def Cons.prems(2))
    show ?thesis
    proof (cases acc)
      case None
      with newest_from_mono [OF ts, of fs xs] True Cons.prems(2) show ?thesis
        by (simp add: exists_path_def)
    next
      case (Some a)
      with Cons.prems(3) obtain ta where ta: "timestamp a = Some ta" by fastforce
      show ?thesis
      proof (cases "ta < mtime n")
        case lt: True
        with newest_from_mono [OF ts, of fs xs] True Cons.prems(2) Some ta ts show ?thesis
          by (simp add: exists_path_def isOlderThan_def)
      next
        case ge: False
        from newest_from_mono [OF ta, of fs xs] obtain np tn
          where "newest_from fs (Some a) xs = Some np" and "timestamp np = Some tn" and "ta \<le> tn"
          by blast
        with ge True Cons.prems(2) Some ta ts show ?thesis
          by (simp add: exists_path_def isOlderThan_def)
      qed
    qed
  next
    case False
    with Cons.prems(1) have mem: "p \<in> set xs" by simp
    have step: "\<exists>acc'. newest_from fs acc (x # xs) = newest_from fs acc' xs \<and>
                  (\<forall>a. acc' = Some a \<longrightarrow> timestamp a \<noteq> None)"
    proof (cases "fs x")
      case None
      then show ?thesis using Cons.prems(3) by (auto simp: exists_path_def)
    next
      case (Some m)
      have "timestamp (TimeStampFile fs x) \<noteq> None" by (simp add: TimeStampFile_def Some)
      then show ?thesis using Cons.prems(3) Some
        by (cases acc) (auto simp: exists_path_def)
    qed
    then obtain acc' where e: "newest_from fs acc (x # xs) = newest_from fs acc' xs"
      and ok: "\<And>a. acc' = Some a \<Longrightarrow> timestamp a \<noteq> None" by blast
    from Cons.IH [OF mem Cons.prems(2) ok] show ?thesis unfolding e by simp
  qed
qed

lemma stale_nodes:
  "files stale_world ''/o/libffi-build/.libs/libffi.a'' = Some (File 50)"
  "files stale_world ''/s/src/libffi/patches/common/P1'' = Some (File 10)"
  "files stale_world ''/s/src/libffi/patches/linux-amd64/P2'' = Some (File 20)"
  "files stale_world ''/s/src/libffi/patches/others/P3'' = Some (File 30)"
  "files stale_world ''/s/src/libffi/patches/common'' = Some (Dir 1 [''P1''])"
  "files stale_world ''/s/src/libffi/patches/linux-amd64'' = Some (Dir 1 [''P2''])"
  "files stale_world ''/s/src/libffi/patches/others'' = Some (Dir 1 [''P3''])"
  by (simp_all add: stale_world_def sample_fs_def)

lemma stale_patches:
  "patches sample_project linux_amd64 (files stale_world) =
     Inr [''/s/src/libffi/patches/common/P1'', ''/s/src/libffi/patches/linux-amd64/P2'']"
  by (simp add: patches_eq sample_patch_dirs exists_path_def patches_under_def stale_nodes join_def)

lemma stale_output:
  "newestOutput (sample_tools []) sample_project (files stale_world) =
     Some \<lparr>ts_path = ''/o/libffi-build/.libs/libffi.a'', timestamp = Some 50\<rparr>"
  by (simp add: newestOutput_def sample_tools_def TimeStampFile_def ts_exists_def exists_path_def
      stale_nodes)

lemma stale_fresh:
  "needsBuild (sample_tools []) sample_project linux_amd64 None (files stale_world) = Inr False"
  by (simp add: needsBuild_def stale_output inherited_needsBuild_def stale_patches
      TimeStampFile_newest_def exists_path_def stale_nodes TimeStampFile_def isOlderThan_def)

text \<open>
  C2. \<^verbatim>\<open>needsBuild\<close> returns true exactly when the inherited generic check reports
  stale or the newest output is older than the newest patch file of the resolved patch
  set, and false otherwise; it raises no error. Touching an existing patch file of the
  resolved set, to a time later than the recorded output, makes \<^verbatim>\<open>needsBuild\<close> return
  true. Touching a path outside the resolved set that the delegate's output does not
  depend on leaves the verdict as it was.
\<close>

theorem needsBuild_patch_freshness:
  "needsBuild C P h newestInput fs =
     Inr (inherited_needsBuild newestInput (newestOutput C P fs) \<or> patch_stale C P h fs) \<and>
   (patches P h fs = Inr ps \<and> p \<in> set ps \<and> exists_path fs p \<and>
    delegate_newestOutput C (touch p t fs) = delegate_newestOutput C fs \<and>
    output_older_than C P fs t \<longrightarrow>
      needsBuild C P h newestInput (touch p t fs) = Inr True) \<and>
   (patches P h fs = Inr ps \<and> q \<notin> set ps \<and>
    delegate_newestOutput C (touch q t fs) = delegate_newestOutput C fs \<longrightarrow>
      needsBuild C P h newestInput (touch q t fs) = needsBuild C P h newestInput fs)"
proof (intro conjI impI)
  show "needsBuild C P h newestInput fs =
     Inr (inherited_needsBuild newestInput (newestOutput C P fs) \<or> patch_stale C P h fs)"
    by (rule needsBuild_eq)
next
  assume a: "patches P h fs = Inr ps \<and> p \<in> set ps \<and> exists_path fs p \<and>
    delegate_newestOutput C (touch p t fs) = delegate_newestOutput C fs \<and>
    output_older_than C P fs t"
  then obtain n where n: "fs p = Some n" by (auto simp: exists_path_def split: option.splits)
  from touch_mtime [where fs = fs and p = p, OF n] obtain n' where n': "touch p t fs p = Some n'" "mtime n' = t" by blast
  from a have mem: "p \<in> set ps" by simp
  from newest_from_covers
         [where fs = "touch p t fs" and p = p and ps = ps and acc = None, OF mem n'(1)] n'(2)
  obtain np tn
    where np: "TimeStampFile_newest (touch p t fs) ps = Some np" "timestamp np = Some tn" "t \<le> tn"
    by (auto simp: TimeStampFile_newest_def)
  from a have out: "newestOutput C P (touch p t fs) = newestOutput C P fs"
    by (simp add: touch_newestOutput)
  from a have ps: "patches P h (touch p t fs) = Inr ps" by (simp add: touch_patches)
  from a have older: "output_older_than C P fs t" by simp
  show "needsBuild C P h newestInput (touch p t fs) = Inr True"
    using np older
    by (auto simp: needsBuild_eq out patch_stale_def ps output_older_than_def isOlderThan_def
        inherited_needsBuild_def split: option.splits)
next
  assume a: "patches P h fs = Inr ps \<and> q \<notin> set ps \<and>
    delegate_newestOutput C (touch q t fs) = delegate_newestOutput C fs"
  then have out: "newestOutput C P (touch q t fs) = newestOutput C P fs"
    by (simp add: touch_newestOutput)
  from a have ps: "patches P h (touch q t fs) = Inr ps" "patches P h fs = Inr ps"
    by (simp_all add: touch_patches)
  from a have "\<forall>x\<in>set ps. touch q t fs x = fs x" by (auto intro: touch_other)
  then have "TimeStampFile_newest (touch q t fs) ps = TimeStampFile_newest fs ps"
    unfolding TimeStampFile_newest_def by (rule newest_from_cong)
  then show "needsBuild C P h newestInput (touch q t fs) = needsBuild C P h newestInput fs"
    by (simp add: needsBuild_eq out patch_stale_def ps cong: option.case_cong)
qed

theorem needsBuild_patch_freshness_witness:
  "patches sample_project linux_amd64 (files stale_world) =
     Inr [''/s/src/libffi/patches/common/P1'', ''/s/src/libffi/patches/linux-amd64/P2''] \<and>
   exists_path (files stale_world) ''/s/src/libffi/patches/linux-amd64/P2'' \<and>
   output_older_than (sample_tools []) sample_project (files stale_world) 60 \<and>
   needsBuild (sample_tools []) sample_project linux_amd64 None (files stale_world) = Inr False \<and>
   needsBuild (sample_tools []) sample_project linux_amd64 None
     (touch ''/s/src/libffi/patches/linux-amd64/P2'' 60 (files stale_world)) = Inr True \<and>
   needsBuild (sample_tools []) sample_project linux_amd64 None
     (touch ''/s/src/libffi/patches/others/P3'' 60 (files stale_world)) = Inr False"
proof -
  let ?C = "sample_tools []" and ?fs = "files stale_world"
  let ?P2 = "''/s/src/libffi/patches/linux-amd64/P2''" and ?P3 = "''/s/src/libffi/patches/others/P3''"
  have ex: "exists_path ?fs ?P2" by (simp add: exists_path_def stale_nodes)
  have older: "output_older_than ?C sample_project ?fs 60"
    by (simp add: output_older_than_def stale_output)
  have d2: "delegate_newestOutput ?C (touch ?P2 60 ?fs) = delegate_newestOutput ?C ?fs"
    by (simp add: sample_tools_def TimeStampFile_def touch_other)
  have d3: "delegate_newestOutput ?C (touch ?P3 60 ?fs) = delegate_newestOutput ?C ?fs"
    by (simp add: sample_tools_def TimeStampFile_def touch_other)
  note general = needsBuild_patch_freshness
    [of ?C sample_project linux_amd64 None ?fs
        "[''/s/src/libffi/patches/common/P1'', ''/s/src/libffi/patches/linux-amd64/P2'']"
        ?P2 60 ?P3]
  show ?thesis using general ex older d2 d3 stale_patches stale_fresh by simp
qed

text \<open>
  C3. When the working directory \<^verbatim>\<open>out_dir\<close> exists, \<^verbatim>\<open>build\<close> fails with the
  assertion at once: no command has run and the file system is the one it was given.
  (The assertion is a Python \<^verbatim>\<open>assert\<close>; the model runs with assertions enabled.)
\<close>

theorem build_refuses_existing_out_dir:
  "exists_path (files w) (out_dir P) \<Longrightarrow> build C P h w = (Some AssertionError, w)"
  by (simp add: build_def)

theorem build_refuses_existing_out_dir_witness:
  "exists_path (files stale_world) (out_dir sample_project) \<and>
   build (sample_tools []) sample_project linux_amd64 stale_world = (Some AssertionError, stale_world)"
proof -
  have ex: "exists_path (files stale_world) (out_dir sample_project)"
    by (simp add: sample_out_dir stale_world_def exists_path_def)
  show ?thesis using ex build_refuses_existing_out_dir [OF ex] by simp
qed

text \<open>
  C4. Let the extractor and \<^verbatim>\<open>git apply\<close> leave the three patch directories as they
  are, let the working directory be absent and the extraction succeed, and let \<open>ps\<close> be
  what the resolver returns on the file system before the build. Then \<^verbatim>\<open>build\<close> runs
  \<^verbatim>\<open>git apply\<close> on the patches of \<open>ps\<close> one at a time, in the order of \<open>ps\<close>. Either
  every application succeeds and the delegate's build is run after the last one, or the
  first failing application is the last command of the attempt: the build fails with that
  patch, no later patch is applied and the delegate's build is not run.
\<close>

theorem build_applies_patches_in_order:
  assumes "keeps_patch_dirs P h (files w) (snd (extract_archive C src (out_dir P) (files w)))"
    and "\<forall>p fs. keeps_patch_dirs P h fs (snd (git_apply C p fs))"
    and "\<not> exists_path (files w) (out_dir P)"
    and "sources P = Inr src"
    and "fst (extract_archive C src (out_dir P) (files w))"
    and "patches P h (files w) = Inr ps"
  shows "(\<exists>ok. fst (build C P h w) = (if ok then None else Some BuildFailed) \<and>
            trace (snd (build C P h w)) =
              trace w @ Extract src (out_dir P) True # map (\<lambda>p. GitApply p True) ps @
              [DelegateBuild ok]) \<or>
         (\<exists>n<length ps. fst (build C P h w) = Some (PatchFailed (ps ! n)) \<and>
            trace (snd (build C P h w)) =
              trace w @ Extract src (out_dir P) True # map (\<lambda>p. GitApply p True) (take n ps) @
              [GitApply (ps ! n) False])"
proof -
  let ?w1 = "\<lparr>files = snd (extract_archive C src (out_dir P) (files w)),
              trace = trace w @ [Extract src (out_dir P) True]\<rparr>"
  note b = build_eager [OF assms]
  from apply_patches_run [of C ps ?w1] show ?thesis
  proof
    assume "\<exists>w'. apply_patches C ps ?w1 = (None, w') \<and>
         trace w' = trace ?w1 @ map (\<lambda>p. GitApply p True) ps"
    then obtain w' where r: "apply_patches C ps ?w1 = (None, w')"
      and t: "trace w' = trace ?w1 @ map (\<lambda>p. GitApply p True) ps" by blast
    obtain ok' fs4 where d: "delegate_build C (files w') = (ok', fs4)"
      by (cases "delegate_build C (files w')")
    have "fst (build C P h w) = (if ok' then None else Some BuildFailed) \<and>
          trace (snd (build C P h w)) =
              trace w @ Extract src (out_dir P) True # map (\<lambda>p. GitApply p True) ps @
              [DelegateBuild ok']"
      using b r t d by simp
    then show ?thesis by blast
  next
    assume "\<exists>n<length ps. \<exists>w'. apply_patches C ps ?w1 = (Some (PatchFailed (ps ! n)), w') \<and>
         trace w' = trace ?w1 @ map (\<lambda>p. GitApply p True) (take n ps) @ [GitApply (ps ! n) False]"
    then obtain n w' where n: "n < length ps"
      and r: "apply_patches C ps ?w1 = (Some (PatchFailed (ps ! n)), w')"
      and t: "trace w' = trace ?w1 @ map (\<lambda>p. GitApply p True) (take n ps) @ [GitApply (ps ! n) False]"
      by blast
    have "fst (build C P h w) = Some (PatchFailed (ps ! n)) \<and>
          trace (snd (build C P h w)) =
              trace w @ Extract src (out_dir P) True # map (\<lambda>p. GitApply p True) (take n ps) @
              [GitApply (ps ! n) False]"
      using b r t by simp
    with n show ?thesis by blast
  qed
qed

theorem build_applies_patches_in_order_witness:
  "keeps_patch_dirs sample_project linux_amd64 (files fresh_world)
     (snd (extract_archive (sample_tools ''/s/src/libffi/patches/common/P1'')
            ''/s/libffi-3.4.6.tar.gz'' (out_dir sample_project) (files fresh_world))) \<and>
   (\<forall>p fs. keeps_patch_dirs sample_project linux_amd64 fs
      (snd (git_apply (sample_tools ''/s/src/libffi/patches/common/P1'') p fs))) \<and>
   \<not> exists_path (files fresh_world) (out_dir sample_project) \<and>
   sources sample_project = Inr ''/s/libffi-3.4.6.tar.gz'' \<and>
   fst (extract_archive (sample_tools ''/s/src/libffi/patches/common/P1'')
          ''/s/libffi-3.4.6.tar.gz'' (out_dir sample_project) (files fresh_world)) \<and>
   patches sample_project linux_amd64 (files fresh_world) =
     Inr [''/s/src/libffi/patches/common/P1'', ''/s/src/libffi/patches/linux-amd64/P2''] \<and>
   fst (build (sample_tools ''/s/src/libffi/patches/common/P1'') sample_project linux_amd64
          fresh_world) = Some (PatchFailed ''/s/src/libffi/patches/common/P1'') \<and>
   trace (snd (build (sample_tools ''/s/src/libffi/patches/common/P1'') sample_project linux_amd64
          fresh_world)) =
     [Extract ''/s/libffi-3.4.6.tar.gz'' ''/o'' True,
      GitApply ''/s/src/libffi/patches/common/P1'' False] \<and>
   fst (build (sample_tools []) sample_project linux_amd64 fresh_world) = None \<and>
   trace (snd (build (sample_tools []) sample_project linux_amd64 fresh_world)) =
     [Extract ''/s/libffi-3.4.6.tar.gz'' ''/o'' True,
      GitApply ''/s/src/libffi/patches/common/P1'' True,
      GitApply ''/s/src/libffi/patches/linux-amd64/P2'' True,
      DelegateBuild True]"
proof -
  note general = build_applies_patches_in_order
    [OF sample_keeps_extract sample_keeps_apply sample_fresh(1) sample_sources sample_fresh(2)
        sample_fresh(3), of "''/s/src/libffi/patches/common/P1''"]
  show ?thesis
    using general sample_keeps_extract sample_keeps_apply sample_fresh sample_sources
    by (simp add: sample_build_fails sample_build_succeeds)
qed

text \<open>
  C5. \<^verbatim>\<open>clean\<close> raises no error in any state, also when the working directory does not
  exist; a second \<^verbatim>\<open>clean\<close> succeeds and changes nothing; after \<^verbatim>\<open>clean\<close> the working
  directory does not exist, and \<^verbatim>\<open>needsBuild\<close> returns true for every delegate whose
  newest output lies in the working directory.
\<close>

theorem clean_idempotent:
  "fst (clean P b w) = None \<and>
   clean P b' (snd (clean P b w)) = (None, snd (clean P b w)) \<and>
   \<not> exists_path (files (snd (clean P b w))) (out_dir P) \<and>
   (output_in_out_dir C P \<longrightarrow>
    needsBuild C P h newestInput (files (snd (clean P b w))) = Inr True)"
  by (simp add: clean_eq remove_tree_idem remove_tree_gone exists_path_def needsBuild_def
      newestOutput_after_clean inherited_needsBuild_def)

theorem clean_idempotent_witness:
  "output_in_out_dir (sample_tools []) sample_project \<and>
   fst (clean sample_project False stale_world) = None \<and>
   fst (clean sample_project False (snd (clean sample_project False stale_world))) = None \<and>
   exists_path (files stale_world) (out_dir sample_project) \<and>
   \<not> exists_path (files (snd (clean sample_project False stale_world))) (out_dir sample_project) \<and>
   needsBuild (sample_tools []) sample_project linux_amd64 None
     (files (snd (clean sample_project False stale_world))) = Inr True"
proof -
  have d: "output_in_out_dir (sample_tools []) sample_project"
    by (auto simp: output_in_out_dir_def sample_tools_def TimeStampFile_def sample_out_dir under_def)
  have ex: "exists_path (files stale_world) (out_dir sample_project)"
    by (simp add: sample_out_dir stale_world_def exists_path_def)
  show ?thesis
    using d ex clean_idempotent [of sample_project False stale_world False "sample_tools []" linux_amd64 None]
    by simp
qed

text \<open>
  C10. \<^verbatim>\<open>clean\<close> does the same for both values of \<^verbatim>\<open>forBuild\<close>: it removes the whole
  working directory, so that no path at or below \<^verbatim>\<open>out_dir\<close> is left.
\<close>

theorem clean_ignores_forBuild:
  "clean P True w = clean P False w \<and>
   clean P forBuild w = (None, \<lparr>files = remove_tree (out_dir P) (files w), trace = trace w\<rparr>) \<and>
   (q = out_dir P \<or> under (out_dir P) q \<longrightarrow> files (snd (clean P forBuild w)) q = None)"
  by (simp add: clean_eq remove_tree_gone)

theorem clean_ignores_forBuild_witness:
  "under (out_dir sample_project) ''/o/libffi-build/.libs/libffi.a'' \<and>
   files stale_world ''/o/libffi-build/.libs/libffi.a'' = Some (File 50) \<and>
   clean sample_project True stale_world = clean sample_project False stale_world \<and>
   files (snd (clean sample_project True stale_world)) ''/o/libffi-build/.libs/libffi.a'' = None"
proof -
  have u: "under (out_dir sample_project) ''/o/libffi-build/.libs/libffi.a''"
    by (simp add: sample_out_dir under_def)
  have f: "files stale_world ''/o/libffi-build/.libs/libffi.a'' = Some (File 50)"
    by (simp add: stale_world_def)
  show ?thesis
    using u f clean_ignores_forBuild
      [of sample_project stale_world True "''/o/libffi-build/.libs/libffi.a''"]
    by blast
qed

section \<open>Properties of the libtool results\<close>

lemma getArchivableResults_all:
  "yielded (getArchivableResults rs False) =
     map (\<lambda>(file_path, archive_path).
            (file_path, if basename (dirname file_path) = ''.libs''
                        then basename archive_path else archive_path)) rs \<and>
   raised (getArchivableResults rs False) = None"
  by (induction rs) (auto simp: Let_def)

lemma sample_names:
  "basename (dirname ''/o/libffi-build/.libs/libffi.a'') = ''.libs''"
  "basename (dirname ''/o/libffi-build/include/ffi.h'') = ''include''"
  "basename ''.libs/libffi.a'' = ''libffi.a''"
  "basename ''/o/libffi-build/.libs/libffi.a'' = ''libffi.a''"
  "basename ''include/ffi.h'' = ''ffi.h''"
  "basename ''/o/libffi-build/include/ffi.h'' = ''ffi.h''"
  by (simp_all add: basename_def dirname_def)

text \<open>
  C6. \<^verbatim>\<open>getArchivableResults\<close> of the libtool project yields every result of the
  inherited generator, in order: one whose file lies directly in a directory named
  \<^verbatim>\<open>.libs\<close> with the last component of its archive path (the base name of the file,
  for results whose archive path ends in the file's name, as the inherited ones do), every
  other one unchanged. With \<^verbatim>\<open>single=True\<close> it yields the first result only and then
  asserts that it came from \<^verbatim>\<open>.libs\<close>.
\<close>

theorem libtool_results_strip_objdir:
  "yielded (getArchivableResults rs False) =
     map (\<lambda>(file_path, archive_path).
            (file_path, if basename (dirname file_path) = ''.libs''
                        then basename archive_path else archive_path)) rs \<and>
   raised (getArchivableResults rs False) = None \<and>
   (list_all (\<lambda>(file_path, archive_path). basename archive_path = basename file_path) rs \<longrightarrow>
    yielded (getArchivableResults rs False) =
      map (\<lambda>(file_path, archive_path).
            (file_path, if basename (dirname file_path) = ''.libs''
                        then basename file_path else archive_path)) rs) \<and>
   getArchivableResults ((file_path, archive_path) # rest) True =
     Yield (file_path, if basename (dirname file_path) = ''.libs''
                       then basename archive_path else archive_path)
       (if basename (dirname file_path) = ''.libs'' then Stop else Raise AssertionError)"
  by (auto simp: getArchivableResults_all Let_def list_all_iff)

theorem libtool_results_strip_objdir_witness:
  "list_all (\<lambda>(file_path, archive_path). basename archive_path = basename file_path)
     sample_results \<and>
   yielded (getArchivableResults sample_results False) =
     [(''/o/libffi-build/.libs/libffi.a'', ''libffi.a''),
      (''/o/libffi-build/include/ffi.h'', ''include/ffi.h'')] \<and>
   getArchivableResults sample_results True =
     Yield (''/o/libffi-build/.libs/libffi.a'', ''libffi.a'') Stop \<and>
   getArchivableResults (rev sample_results) True =
     Yield (''/o/libffi-build/include/ffi.h'', ''include/ffi.h'') (Raise AssertionError)"
  using libtool_results_strip_objdir [of sample_results "''/o/libffi-build/.libs/libffi.a''" "''.libs/libffi.a''" "[(''/o/libffi-build/include/ffi.h'', ''include/ffi.h'')]"]
        libtool_results_strip_objdir [of sample_results "''/o/libffi-build/include/ffi.h''" "''include/ffi.h''" "[(''/o/libffi-build/.libs/libffi.a'', ''.libs/libffi.a'')]"]
  by (simp add: sample_results_def sample_names)

end
